theory Spec2Isabelle
  imports Complex_Main
begin

section \<open>Conventions\<close>

text \<open>
  The three programs are JavaScript. A JavaScript number is modelled as a \<^typ>\<open>real\<close>
  (an integer counter as an \<^typ>\<open>int\<close>): rounding of doubles and of the entries of a
  Float32Array is left out, so every equation below is one of exact arithmetic.
  A division by zero, which gives \<open>NaN\<close> or an infinity in JavaScript, has no
  counterpart in the reals: a property of a function that divides is stated for the
  arguments at which the divisor is not zero.
  The value \<open>undefined\<close> is \<^term>\<open>None\<close>. A call of \<open>console.log\<close> appends one
  \<open>message\<close> to the list of messages that the function returns.
\<close>

datatype message =
    Text string
  | TextNum string int

section \<open>Hierarchy.js: the matrix stack\<close>

text \<open>
  \<open>class Stack\<close>: \<open>elements\<close> is a JavaScript array, which is a map from indices to
  values (a missing index reads as \<open>undefined\<close>), and \<open>t\<close> is the index of the next free
  slot.
\<close>

record 'a Stack =
  elements :: "int \<rightharpoonup> 'a"
  t :: int

definition Stack_new :: "'a Stack" where
  "Stack_new = \<lparr>elements = Map.empty, t = 0\<rparr>"

text \<open>\<open>push(m) { this.elements[this.t++] = m; }\<close>\<close>

definition push :: "'a \<Rightarrow> 'a Stack \<Rightarrow> 'a Stack" where
  "push m stk = stk\<lparr>elements := (elements stk)(t stk \<mapsto> m), t := t stk + 1\<rparr>"

text \<open>
  \<open>top()\<close>, named \<open>top_stk\<close> here (\<open>top\<close> is a constant of HOL), returns the value and
  the messages it logged; it does not change the stack.
\<close>

definition top_stk :: "'a Stack \<Rightarrow> 'a option \<times> message list" where
  "top_stk stk =
     (if t stk \<le> 0
      then (None, [TextNum ''top = '' (t stk), Text ''Warning: stack underflow''])
      else (elements stk (t stk - 1), []))"

text \<open>\<open>pop()\<close> returns the value, the stack after the call and the messages it logged.\<close>

definition pop :: "'a Stack \<Rightarrow> 'a option \<times> 'a Stack \<times> message list" where
  "pop stk =
     (if t stk \<le> 0
      then (None, stk, [Text ''Warning: stack underflow''])
      else
        (let stk1 = stk\<lparr>t := t stk - 1\<rparr>;
             temp = elements stk1 (t stk1);
             stk2 = stk1\<lparr>elements := (elements stk1)(t stk1 := None)\<rparr>
         in (temp, stk2, [])))"

definition isEmpty :: "'a Stack \<Rightarrow> bool" where
  "isEmpty stk = (t stk \<le> 0)"

subsection \<open>Sequences of calls\<close>

datatype 'a call = Push 'a | Pop

fun run :: "'a call list \<Rightarrow> 'a Stack \<Rightarrow> 'a Stack" where
  "run [] stk = stk"
| "run (Push m # cs) stk = run cs (push m stk)"
| "run (Pop # cs) stk = run cs (fst (snd (pop stk)))"

fun pushes :: "'a call list \<Rightarrow> 'a list" where
  "pushes [] = []"
| "pushes (Push m # cs) = m # pushes cs"
| "pushes (Pop # cs) = pushes cs"

fun pops :: "'a call list \<Rightarrow> nat" where
  "pops [] = 0"
| "pops (Push m # cs) = pops cs"
| "pops (Pop # cs) = Suc (pops cs)"

text \<open>
  \<open>no_underflow cs d\<close>: started at depth \<open>d\<close>, no \<open>pop\<close> of the sequence \<open>cs\<close> is called
  on a stack of depth zero or less.
\<close>

fun no_underflow :: "'a call list \<Rightarrow> int \<Rightarrow> bool" where
  "no_underflow [] d = True"
| "no_underflow (Push m # cs) d = no_underflow cs (d + 1)"
| "no_underflow (Pop # cs) d = (0 < d \<and> no_underflow cs (d - 1))"

section \<open>cuon-matrix.js: the class Matrix4\<close>

text \<open>
  Hierarchy.js builds all its transforms with the class \<open>Matrix4\<close> of cuon-matrix.js, a
  file that the page loads and that is not among the sources. A \<open>Matrix4\<close> is its array
  \<open>elements\<close> of sixteen numbers in column-major order: the entry of row \<open>i\<close> and column
  \<open>j\<close> is at index \<open>i + 4 * j\<close>. A method that changes its receiver and returns it is a
  function from the receiver to the new value.
\<close>

type_synonym Matrix4 = "real list"

text \<open>
  Modelled from the spec: \<open>new Matrix4(src)\<close>. Without a source matrix (or with
  \<open>undefined\<close>) the new matrix is the identity, otherwise a copy of the source.
\<close>

definition Matrix4_new :: "Matrix4 option \<Rightarrow> Matrix4" where
  "Matrix4_new src =
     (case src of
        None \<Rightarrow> [1, 0, 0, 0,  0, 1, 0, 0,  0, 0, 1, 0,  0, 0, 0, 1]
      | Some m \<Rightarrow> m)"

text \<open>
  Modelled from the spec: \<open>setTranslate(x, y, z)\<close> overwrites the receiver with the
  translation by \<open>(x, y, z)\<close> ("translation (0,0,0)", "translate to a pivot point").
\<close>

definition setTranslate :: "Matrix4 \<Rightarrow> real \<Rightarrow> real \<Rightarrow> real \<Rightarrow> Matrix4" where
  "setTranslate m x y z = [1, 0, 0, 0,  0, 1, 0, 0,  0, 0, 1, 0,  x, y, z, 1]"

text \<open>
  Modelled from the spec: \<open>setScale(x, y, z)\<close> overwrites the receiver with the scaling
  by \<open>(x, y, z)\<close> (the "local scale transform" of a part).
\<close>

definition setScale :: "Matrix4 \<Rightarrow> real \<Rightarrow> real \<Rightarrow> real \<Rightarrow> Matrix4" where
  "setScale m x y z = [x, 0, 0, 0,  0, y, 0, 0,  0, 0, z, 0,  0, 0, 0, 1]"

text \<open>
  Modelled from the spec: \<open>setRotate(angle, x, y, z)\<close> overwrites the receiver with the
  rotation by \<open>angle\<close> degrees about the axis \<open>(x, y, z)\<close>, which is normalised first
  ("rotate by the signed angle about a fixed axis", "rotate(15\<degree>, y-axis)").
\<close>

definition setRotate :: "Matrix4 \<Rightarrow> real \<Rightarrow> real \<Rightarrow> real \<Rightarrow> real \<Rightarrow> Matrix4" where
  "setRotate m angle x y z =
     (let a = pi * angle / 180;
          s = sin a;
          c = cos a;
          len = sqrt (x * x + y * y + z * z);
          x = x / len;
          y = y / len;
          z = z / len;
          nc = 1 - c
      in [x * x * nc + c,      x * y * nc + z * s,  z * x * nc - y * s,  0,
          x * y * nc - z * s,  y * y * nc + c,      y * z * nc + x * s,  0,
          z * x * nc + y * s,  y * z * nc - x * s,  z * z * nc + c,      0,
          0,                   0,                   0,                   1])"

text \<open>
  Modelled from the spec: \<open>multiply(other)\<close> overwrites the receiver \<open>a\<close> with the matrix
  product \<open>a \<times> other\<close> ("parentTop \<times> partPlacement").
\<close>

definition multiply :: "Matrix4 \<Rightarrow> Matrix4 \<Rightarrow> Matrix4" where
  "multiply a b =
     [a ! 0 * b ! 0 + a ! 4 * b ! 1 + a ! 8 * b ! 2 + a ! 12 * b ! 3,
      a ! 1 * b ! 0 + a ! 5 * b ! 1 + a ! 9 * b ! 2 + a ! 13 * b ! 3,
      a ! 2 * b ! 0 + a ! 6 * b ! 1 + a ! 10 * b ! 2 + a ! 14 * b ! 3,
      a ! 3 * b ! 0 + a ! 7 * b ! 1 + a ! 11 * b ! 2 + a ! 15 * b ! 3,
      a ! 0 * b ! 4 + a ! 4 * b ! 5 + a ! 8 * b ! 6 + a ! 12 * b ! 7,
      a ! 1 * b ! 4 + a ! 5 * b ! 5 + a ! 9 * b ! 6 + a ! 13 * b ! 7,
      a ! 2 * b ! 4 + a ! 6 * b ! 5 + a ! 10 * b ! 6 + a ! 14 * b ! 7,
      a ! 3 * b ! 4 + a ! 7 * b ! 5 + a ! 11 * b ! 6 + a ! 15 * b ! 7,
      a ! 0 * b ! 8 + a ! 4 * b ! 9 + a ! 8 * b ! 10 + a ! 12 * b ! 11,
      a ! 1 * b ! 8 + a ! 5 * b ! 9 + a ! 9 * b ! 10 + a ! 13 * b ! 11,
      a ! 2 * b ! 8 + a ! 6 * b ! 9 + a ! 10 * b ! 10 + a ! 14 * b ! 11,
      a ! 3 * b ! 8 + a ! 7 * b ! 9 + a ! 11 * b ! 10 + a ! 15 * b ! 11,
      a ! 0 * b ! 12 + a ! 4 * b ! 13 + a ! 8 * b ! 14 + a ! 12 * b ! 15,
      a ! 1 * b ! 12 + a ! 5 * b ! 13 + a ! 9 * b ! 14 + a ! 13 * b ! 15,
      a ! 2 * b ! 12 + a ! 6 * b ! 13 + a ! 10 * b ! 14 + a ! 14 * b ! 15,
      a ! 3 * b ! 12 + a ! 7 * b ! 13 + a ! 11 * b ! 14 + a ! 15 * b ! 15]"

text \<open>
  Modelled from the spec: \<open>rotate(angle, x, y, z)\<close> multiplies the receiver from the
  right by the rotation, \<open>translate(x, y, z)\<close> by the translation ("composition of:
  translate to a pivot point, rotate by the signed angle about a fixed axis, translate
  back"). \<open>rotate\<close> is named \<open>rotate_m\<close> here (\<open>rotate\<close> is a constant of HOL).
\<close>

definition rotate_m :: "Matrix4 \<Rightarrow> real \<Rightarrow> real \<Rightarrow> real \<Rightarrow> real \<Rightarrow> Matrix4" where
  "rotate_m m angle x y z = multiply m (setRotate (Matrix4_new None) angle x y z)"

definition translate :: "Matrix4 \<Rightarrow> real \<Rightarrow> real \<Rightarrow> real \<Rightarrow> Matrix4" where
  "translate m x y z = multiply m (setTranslate (Matrix4_new None) x y z)"

section \<open>CircleNPolyIntersec.js: two circles\<close>

text \<open>
  Modelled from the spec: \<open>vec2d.dist\<close> is \<open>vec2.dist\<close> of the library gl-matrix, which
  is not among the sources; it is the distance of two points ("center-distance"), each
  an array of two numbers. It is named \<open>dist_v\<close> here (\<open>dist\<close> is a constant of HOL).
\<close>

definition dist_v :: "real list \<Rightarrow> real list \<Rightarrow> real" where
  "dist_v a b =
     (let x = b ! 0 - a ! 0;
          y = b ! 1 - a ! 1
      in sqrt (x * x + y * y))"

definition circleCircleIntersect :: "real list \<Rightarrow> real \<Rightarrow> real list \<Rightarrow> real \<Rightarrow> bool" where
  "circleCircleIntersect center1 radius1 center2 radius2 =
     (if dist_v center1 center2 > radius1 + radius2 then False else True)"

section \<open>simple-rotator.js: the trackball\<close>

text \<open>
  A vector is a JavaScript array of three numbers. The helper functions of the rotator
  write their result into the array given as first argument, all three entries of it;
  here each returns the new contents of that array. \<open>length\<close> and \<open>normalize\<close> are
  named \<open>length_v\<close> and \<open>normalize_v\<close> (the plain names are constants of HOL).
\<close>

definition dot :: "real list \<Rightarrow> real list \<Rightarrow> real" where
  "dot v w = v ! 0 * w ! 0 + v ! 1 * w ! 1 + v ! 2 * w ! 2"

definition length_v :: "real list \<Rightarrow> real" where
  "length_v v = sqrt (v ! 0 * v ! 0 + v ! 1 * v ! 1 + v ! 2 * v ! 2)"

definition normalize_v :: "real list \<Rightarrow> real list" where
  "normalize_v w = (let d = length_v w in [w ! 0 / d, w ! 1 / d, w ! 2 / d])"

definition copy :: "real list \<Rightarrow> real list" where
  "copy w = [w ! 0, w ! 1, w ! 2]"

definition add :: "real list \<Rightarrow> real list \<Rightarrow> real list" where
  "add v w = [v ! 0 + w ! 0, v ! 1 + w ! 1, v ! 2 + w ! 2]"

definition subtract :: "real list \<Rightarrow> real list \<Rightarrow> real list" where
  "subtract v w = [v ! 0 - w ! 0, v ! 1 - w ! 1, v ! 2 - w ! 2]"

definition scale :: "real list \<Rightarrow> real \<Rightarrow> real list" where
  "scale v num = [v ! 0 * num, v ! 1 * num, v ! 2 * num]"

definition cross :: "real list \<Rightarrow> real list \<Rightarrow> real list" where
  "cross v w =
     (let x = v ! 1 * w ! 2 - v ! 2 * w ! 1;
          y = v ! 2 * w ! 0 - v ! 0 * w ! 2;
          z = v ! 0 * w ! 1 - v ! 1 * w ! 0
      in [x, y, z])"

text \<open>
  The variables that the constructor closes over. \<open>prevx\<close> and \<open>prevy\<close> are undefined
  until the first \<open>mousedown\<close> sets them and are read only while \<open>dragging\<close> is true,
  that is after a \<open>mousedown\<close>; they start at 0 here. The optional \<open>callback\<close>, which is
  called after each drag step and does not touch these variables, is left out.
\<close>

record SimpleRotator =
  unitx :: "real list"
  unity :: "real list"
  unitz :: "real list"
  viewZ :: real
  centerX :: real
  centerY :: real
  radius :: real
  radius2 :: real
  prevx :: real
  prevy :: real
  dragging :: bool

record Canvas =
  width :: real
  height :: real

text \<open>
  \<open>setView\<close>: an absent argument is \<^term>\<open>None\<close>; a view distance of 0 is falsy, so
  that the length of the view direction is taken then as well.
\<close>

definition setView ::
  "SimpleRotator \<Rightarrow> real list option \<Rightarrow> real list option \<Rightarrow> real option \<Rightarrow> SimpleRotator" where
  "setView r viewDirectionVector viewUpVector viewDistance =
     (let viewpoint = (case viewDirectionVector of None \<Rightarrow> [0, 0, 10] | Some v \<Rightarrow> v);
          viewup = (case viewUpVector of None \<Rightarrow> [0, 1, 0] | Some v \<Rightarrow> v);
          r = (case viewDistance of
                 None \<Rightarrow> r\<lparr>viewZ := length_v viewpoint\<rparr>
               | Some d \<Rightarrow> if d \<noteq> 0 then r\<lparr>viewZ := d\<rparr> else r\<lparr>viewZ := length_v viewpoint\<rparr>);
          r = r\<lparr>unitz := copy viewpoint\<rparr>;
          r = r\<lparr>unitz := normalize_v (unitz r)\<rparr>;
          r = r\<lparr>unity := copy (unitz r)\<rparr>;
          r = r\<lparr>unity := scale (unity r) (dot (unitz r) viewup)\<rparr>;
          r = r\<lparr>unity := subtract viewup (unity r)\<rparr>;
          r = r\<lparr>unity := normalize_v (unity r)\<rparr>;
          r = r\<lparr>unitx := cross (unity r) (unitz r)\<rparr>
      in r)"

definition getViewMatrixArray :: "SimpleRotator \<Rightarrow> real list" where
  "getViewMatrixArray r =
     [unitx r ! 0, unity r ! 0, unitz r ! 0, 0,
      unitx r ! 1, unity r ! 1, unitz r ! 1, 0,
      unitx r ! 2, unity r ! 2, unitz r ! 2, 0,
      0, 0, - viewZ r, 1]"

definition getViewMatrix :: "SimpleRotator \<Rightarrow> real list" where
  "getViewMatrix r = getViewMatrixArray r"

definition getViewDistance :: "SimpleRotator \<Rightarrow> real" where
  "getViewDistance r = viewZ r"

definition setViewDistance :: "SimpleRotator \<Rightarrow> real \<Rightarrow> SimpleRotator" where
  "setViewDistance r viewDistance = r\<lparr>viewZ := viewDistance\<rparr>"

definition reflectInAxis :: "real list \<Rightarrow> real list \<Rightarrow> real list" where
  "reflectInAxis axis source =
     (let s = 2 * (axis ! 0 * source ! 0 + axis ! 1 * source ! 1 + axis ! 2 * source ! 2)
      in [s * axis ! 0 - source ! 0, s * axis ! 1 - source ! 1, s * axis ! 2 - source ! 2])"

definition applyTransvection :: "SimpleRotator \<Rightarrow> real list \<Rightarrow> real list \<Rightarrow> SimpleRotator" where
  "applyTransvection r e1 e2 =
     (let e1 = normalize_v e1;
          e2 = normalize_v e2;
          e = add e1 e2;
          e = normalize_v e;
          temp = reflectInAxis e (unitz r);
          r = r\<lparr>unitz := reflectInAxis e1 temp\<rparr>;
          temp = reflectInAxis e (unitx r);
          r = r\<lparr>unitx := reflectInAxis e1 temp\<rparr>;
          temp = reflectInAxis e (unity r);
          r = r\<lparr>unity := reflectInAxis e1 temp\<rparr>
      in r)"

definition toRay :: "SimpleRotator \<Rightarrow> real \<Rightarrow> real \<Rightarrow> real list" where
  "toRay r x y =
     (let dx = x - centerX r;
          dy = centerY r - y;
          vx = dx * unitx r ! 0 + dy * unity r ! 0;
          vy = dx * unitx r ! 1 + dy * unity r ! 1;
          vz = dx * unitx r ! 2 + dy * unity r ! 2;
          dist2 = vx * vx + vy * vy + vz * vz
      in if dist2 > radius2 r then [vx, vy, vz]
         else (let z = sqrt (radius2 r - dist2)
               in [vx + z * unitz r ! 0, vy + z * unitz r ! 1, vz + z * unitz r ! 2]))"

text \<open>
  The mouse handlers. Their arguments \<open>x\<close> and \<open>y\<close> are the position of the pointer on
  the canvas, which the source computes from the event as
  \<open>window.pageXOffset + evt.clientX - box.left\<close> (and likewise for \<open>y\<close>).
\<close>

definition doMouseDown :: "real \<Rightarrow> real \<Rightarrow> SimpleRotator \<Rightarrow> SimpleRotator" where
  "doMouseDown x y r =
     (if dragging r then r else r\<lparr>dragging := True, prevx := x, prevy := y\<rparr>)"

definition doMouseDrag :: "real \<Rightarrow> real \<Rightarrow> SimpleRotator \<Rightarrow> SimpleRotator" where
  "doMouseDrag x y r =
     (if \<not> dragging r then r
      else
        (let ray1 = toRay r (prevx r) (prevy r);
             ray2 = toRay r x y;
             r = applyTransvection r ray1 ray2
         in r\<lparr>prevx := x, prevy := y\<rparr>))"

definition doMouseUp :: "SimpleRotator \<Rightarrow> SimpleRotator" where
  "doMouseUp r = (if dragging r then r\<lparr>dragging := False\<rparr> else r)"

text \<open>
  The constructor: the state before \<open>setView\<close> has no entries in the three basis arrays
  (\<open>new Array(3)\<close>); \<open>setView\<close> writes all of them.
\<close>

definition SimpleRotator_new ::
  "Canvas \<Rightarrow> real list option \<Rightarrow> real list option \<Rightarrow> real option \<Rightarrow> SimpleRotator" where
  "SimpleRotator_new canvas viewDirectionVector viewUpVector viewDistance =
     setView
       \<lparr>unitx = [], unity = [], unitz = [], viewZ = 0,
        centerX = width canvas / 2, centerY = height canvas / 2,
        radius = min (width canvas / 2) (height canvas / 2),
        radius2 = min (width canvas / 2) (height canvas / 2) * min (width canvas / 2) (height canvas / 2),
        prevx = 0, prevy = 0, dragging = False\<rparr>
       viewDirectionVector viewUpVector viewDistance"

text \<open>
  The events of the mouse. The constructor registers \<open>doMouseDown\<close> on the canvas;
  \<open>doMouseDown\<close> registers \<open>doMouseDrag\<close> and \<open>doMouseUp\<close> on the document and
  \<open>doMouseUp\<close> removes them again, so these two run exactly while \<open>dragging\<close> is true.
\<close>

datatype MouseEvent = Mousedown real real | Mousemove real real | Mouseup

fun dispatch :: "SimpleRotator \<Rightarrow> MouseEvent \<Rightarrow> SimpleRotator" where
  "dispatch r (Mousedown x y) = doMouseDown x y r"
| "dispatch r (Mousemove x y) = (if dragging r then doMouseDrag x y r else r)"
| "dispatch r Mouseup = (if dragging r then doMouseUp r else r)"

text \<open>
  \<open>no_drag d evs\<close>: in the sequence \<open>evs\<close> of events, received when \<open>dragging\<close> has the
  value \<open>d\<close>, the mouse never moves between a \<open>mousedown\<close> and the next \<open>mouseup\<close>.
\<close>

fun no_drag :: "bool \<Rightarrow> MouseEvent list \<Rightarrow> bool" where
  "no_drag d [] = True"
| "no_drag d (Mousedown x y # evs) = no_drag True evs"
| "no_drag d (Mousemove x y # evs) = (\<not> d \<and> no_drag d evs)"
| "no_drag d (Mouseup # evs) = no_drag False evs"

text \<open>
  The matrix that the spec describes for a view direction, an up vector and a distance:
  the third basis vector is the unit vector of the view direction, the second the unit
  vector of the part of the up vector orthogonal to it, the first their cross product;
  the basis vectors are the rows of the upper left block and the negated view distance
  is the last entry of the last column but one.
\<close>

definition unit_vector :: "real list \<Rightarrow> real list" where
  "unit_vector v = map (\<lambda>c. c / sqrt (v ! 0 * v ! 0 + v ! 1 * v ! 1 + v ! 2 * v ! 2)) [v ! 0, v ! 1, v ! 2]"

definition view_basis :: "real list \<Rightarrow> real list \<Rightarrow> real list \<times> real list \<times> real list" where
  "view_basis direction up =
     (let z = unit_vector direction;
          p = z ! 0 * up ! 0 + z ! 1 * up ! 1 + z ! 2 * up ! 2;
          y = unit_vector [up ! 0 - p * z ! 0, up ! 1 - p * z ! 1, up ! 2 - p * z ! 2];
          x = [y ! 1 * z ! 2 - y ! 2 * z ! 1, y ! 2 * z ! 0 - y ! 0 * z ! 2, y ! 0 * z ! 1 - y ! 1 * z ! 0]
      in (x, y, z))"

definition view_matrix_of :: "real list \<times> real list \<times> real list \<Rightarrow> real \<Rightarrow> real list" where
  "view_matrix_of b d =
     (case b of (x, y, z) \<Rightarrow>
        [x ! 0, y ! 0, z ! 0, 0,
         x ! 1, y ! 1, z ! 1, 0,
         x ! 2, y ! 2, z ! 2, 0,
         0, 0, - d, 1])"

definition orthonormal :: "real list \<times> real list \<times> real list \<Rightarrow> bool" where
  "orthonormal b =
     (case b of (x, y, z) \<Rightarrow>
        dot x x = 1 \<and> dot y y = 1 \<and> dot z z = 1 \<and> dot x y = 0 \<and> dot y z = 0 \<and> dot z x = 0)"

section \<open>Hierarchy.js: the robot and its key handler\<close>

text \<open>
  The global variables of Hierarchy.js that the key handler reads and writes: the
  placement matrix and the angle of each of the fourteen body parts.
\<close>

record Robot =
  torsoMatrix :: Matrix4
  shoulderLeftMatrix :: Matrix4
  shoulderRightMatrix :: Matrix4
  armLeftMatrix :: Matrix4
  armRightMatrix :: Matrix4
  handLeftMatrix :: Matrix4
  handRightMatrix :: Matrix4
  headMatrix :: Matrix4
  legLeftMatrix :: Matrix4
  legRightMatrix :: Matrix4
  footLeftMatrix :: Matrix4
  footRightMatrix :: Matrix4
  ankleRightMatrix :: Matrix4
  ankleLeftMatrix :: Matrix4
  torsoAngle :: real
  shoulderLeftAngle :: real
  shoulderRightAngle :: real
  armLeftAngle :: real
  armRightAngle :: real
  legLeftAngle :: real
  legRightAngle :: real
  handLeftAngle :: real
  handRightAngle :: real
  headAngle :: real
  footLeftAngle :: real
  footRightAngle :: real
  ankleLeftAngle :: real
  ankleRightAngle :: real

text \<open>The values that the declarations give these variables when the script is loaded.\<close>

definition initial :: Robot where
  "initial =
     \<lparr>torsoMatrix = setTranslate (Matrix4_new None) 0 0 0,
      shoulderLeftMatrix = setTranslate (Matrix4_new None) 6.5 2 0,
      shoulderRightMatrix = setTranslate (Matrix4_new None) (-6.5) 2 0,
      armLeftMatrix = setTranslate (Matrix4_new None) 0 (-5) 0,
      armRightMatrix = setTranslate (Matrix4_new None) 0 (-5) 0,
      handLeftMatrix = setTranslate (Matrix4_new None) 0 (-4) 0,
      handRightMatrix = setTranslate (Matrix4_new None) 0 (-4) 0,
      headMatrix = setTranslate (Matrix4_new None) 0 7 0,
      legLeftMatrix = setTranslate (Matrix4_new None) (-2) (-7) 0,
      legRightMatrix = setTranslate (Matrix4_new None) 2 (-7) 0,
      footLeftMatrix = setTranslate (Matrix4_new None) 0 (-2) 1.6,
      footRightMatrix = setTranslate (Matrix4_new None) 0 (-2) 1.6,
      ankleRightMatrix = setTranslate (Matrix4_new None) 0 (-4) 0,
      ankleLeftMatrix = setTranslate (Matrix4_new None) 0 (-4) 0,
      torsoAngle = 0,
      shoulderLeftAngle = 0,
      shoulderRightAngle = 0,
      armLeftAngle = 0,
      armRightAngle = 0,
      legLeftAngle = 0,
      legRightAngle = 0,
      handLeftAngle = 0,
      handRightAngle = 0,
      headAngle = 0,
      footLeftAngle = 0,
      footRightAngle = 0,
      ankleLeftAngle = 0,
      ankleRightAngle = 0\<rparr>"

text \<open>The local (scale) matrices are set once and never changed.\<close>

definition torsoMatrixLocal :: Matrix4 where
  "torsoMatrixLocal = setScale (Matrix4_new None) 10 10 5"
definition shoulderLeftMatrixLocal :: Matrix4 where
  "shoulderLeftMatrixLocal = setScale (Matrix4_new None) 3 5 2"
definition shoulderRightMatrixLocal :: Matrix4 where
  "shoulderRightMatrixLocal = setScale (Matrix4_new None) 3 5 2"
definition armRightMatrixLocal :: Matrix4 where
  "armRightMatrixLocal = setScale (Matrix4_new None) 3 5 2"
definition armLeftMatrixLocal :: Matrix4 where
  "armLeftMatrixLocal = setScale (Matrix4_new None) 3 5 2"
definition handLeftMatrixLocal :: Matrix4 where
  "handLeftMatrixLocal = setScale (Matrix4_new None) 1 3 3"
definition handRightMatrixLocal :: Matrix4 where
  "handRightMatrixLocal = setScale (Matrix4_new None) 1 3 3"
definition headMatrixLocal :: Matrix4 where
  "headMatrixLocal = setScale (Matrix4_new None) 4 4 4"
definition legLeftMatrixLocal :: Matrix4 where
  "legLeftMatrixLocal = setScale (Matrix4_new None) 3 4 2"
definition legRightMatrixLocal :: Matrix4 where
  "legRightMatrixLocal = setScale (Matrix4_new None) 3 4 2"
definition footLeftMatrixLocal :: Matrix4 where
  "footLeftMatrixLocal = setScale (Matrix4_new None) 3 1 5"
definition footRightMatrixLocal :: Matrix4 where
  "footRightMatrixLocal = setScale (Matrix4_new None) 3 1 5"
definition ankleLeftMatrixLocal :: Matrix4 where
  "ankleLeftMatrixLocal = setScale (Matrix4_new None) 3 4 2"
definition ankleRightMatrixLocal :: Matrix4 where
  "ankleRightMatrixLocal = setScale (Matrix4_new None) 3 4 2"

subsection \<open>Key presses\<close>

text \<open>
  A JavaScript string is the list of its UTF-16 code units; \<open>lit\<close> is a string literal
  of the source and \<open>fromCharCode\<close> is \<open>String.fromCharCode\<close> of one number.
\<close>

type_synonym jsstring = "nat list"

definition lit :: "string \<Rightarrow> jsstring" where
  "lit cs = map of_char cs"

definition fromCharCode :: "int \<Rightarrow> jsstring" where
  "fromCharCode n = [nat (n mod 65536)]"

text \<open>
  The fields of a \<open>KeyboardEvent\<close> that \<open>getChar\<close> reads; \<open>which\<close> may be \<open>null\<close>
  or \<open>undefined\<close> (\<^term>\<open>None\<close>). The result \<open>null\<close> of \<open>getChar\<close> is \<^term>\<open>None\<close>.
\<close>

record KeyboardEvent =
  which :: "int option"
  keyCode :: int
  charCode :: int

definition getChar :: "KeyboardEvent \<Rightarrow> jsstring option" where
  "getChar event =
     (if which event = None then Some (fromCharCode (keyCode event))
      else if which event \<noteq> Some 0 \<and> charCode event \<noteq> 0
        then Some (fromCharCode (the (which event)))
      else None)"

text \<open>
  \<open>handleKeyPress(event)\<close>: the \<open>switch\<close> over the character is a chain of
  comparisons in the order of its cases, and \<open>default: return\<close> leaves every variable as
  it was. Each case first updates the angle and then overwrites the placement matrix.
  The status line that the handler writes into the page after the \<open>switch\<close> is not
  part of the model.
\<close>

definition handleKeyPress :: "KeyboardEvent \<Rightarrow> Robot \<Rightarrow> Robot" where
  "handleKeyPress event r =
    (let ch = getChar event in
     if ch = Some (lit ''t'') then
       (let r = r\<lparr>torsoAngle := torsoAngle r + 15\<rparr>
        in r\<lparr>torsoMatrix :=
             rotate_m (setTranslate (torsoMatrix r) 0 0 0) (torsoAngle r) 0 1 0\<rparr>)
     else if ch = Some (lit ''T'') then
       (let r = r\<lparr>torsoAngle := torsoAngle r - 15\<rparr>
        in r\<lparr>torsoMatrix :=
             rotate_m (setTranslate (torsoMatrix r) 0 0 0) (torsoAngle r) 0 1 0\<rparr>)
     else if ch = Some (lit ''s'') then
       (let r = r\<lparr>shoulderRightAngle := shoulderRightAngle r + 15\<rparr>;
            currentShoulderRot =
              translate
                (rotate_m (setTranslate (Matrix4_new None) 0 2 0) (- shoulderRightAngle r) 1 0 0)
                0 (-2) 0
        in r\<lparr>shoulderRightMatrix :=
             multiply (setTranslate (shoulderRightMatrix r) (-6.5) 2 0) currentShoulderRot\<rparr>)
     else if ch = Some (lit ''S'') then
       (let r = r\<lparr>shoulderRightAngle := shoulderRightAngle r - 15\<rparr>;
            currentShoulderRot =
              translate
                (rotate_m (setTranslate (Matrix4_new None) 0 2 0) (- shoulderRightAngle r) 1 0 0)
                0 (-2) 0
        in r\<lparr>shoulderRightMatrix :=
             multiply (setTranslate (shoulderRightMatrix r) (-6.5) 2 0) currentShoulderRot\<rparr>)
     else if ch = Some (lit ''a'') then
       (let r = r\<lparr>armRightAngle := armRightAngle r + 15\<rparr>;
            currentArm =
              translate
                (rotate_m (setTranslate (Matrix4_new None) 0 2.5 1.0) (- armRightAngle r) 1 0 0)
                0 (-2.5) (-1.0)
        in r\<lparr>armRightMatrix :=
             multiply (setTranslate (armRightMatrix r) 0 (-5) 0) currentArm\<rparr>)
     else if ch = Some (lit ''A'') then
       (let r = r\<lparr>armRightAngle := armRightAngle r - 15\<rparr>;
            currentArm =
              translate
                (rotate_m (setTranslate (Matrix4_new None) 0 2.5 1.0) (- armRightAngle r) 1 0 0)
                0 (-2.5) (-1.0)
        in r\<lparr>armRightMatrix :=
             multiply (setTranslate (armRightMatrix r) 0 (-5) 0) currentArm\<rparr>)
     else if ch = Some (lit ''e'') then
       (let r = r\<lparr>armLeftAngle := armLeftAngle r + 15\<rparr>;
            currentArm =
              translate
                (rotate_m (setTranslate (Matrix4_new None) 0 2.5 1.0) (- armLeftAngle r) 1 0 0)
                0 (-2.5) (-1.0)
        in r\<lparr>armLeftMatrix :=
             multiply (setTranslate (armLeftMatrix r) 0 (-5) 0) currentArm\<rparr>)
     else if ch = Some (lit ''E'') then
       (let r = r\<lparr>armLeftAngle := armLeftAngle r - 15\<rparr>;
            currentArm =
              translate
                (rotate_m (setTranslate (Matrix4_new None) 0 2.5 1.0) (- armLeftAngle r) 1 0 0)
                0 (-2.5) (-1.0)
        in r\<lparr>armLeftMatrix :=
             multiply (setTranslate (armLeftMatrix r) 0 (-5) 0) currentArm\<rparr>)
     else if ch = Some (lit ''h'') then
       (let r = r\<lparr>handLeftAngle := handLeftAngle r + 15\<rparr>
        in r\<lparr>handLeftMatrix :=
             rotate_m (setTranslate (handLeftMatrix r) 0 (-4) 0) (handLeftAngle r) 0 1 0\<rparr>)
     else if ch = Some (lit ''H'') then
       (let r = r\<lparr>handLeftAngle := handLeftAngle r - 15\<rparr>
        in r\<lparr>handLeftMatrix :=
             rotate_m (setTranslate (handLeftMatrix r) 0 (-4) 0) (handLeftAngle r) 0 1 0\<rparr>)
     else if ch = Some (lit ''Q'') then
       (let r = r\<lparr>handRightAngle := handRightAngle r + 15\<rparr>
        in r\<lparr>handRightMatrix :=
             rotate_m (setTranslate (handRightMatrix r) 0 (-4) 0) (handRightAngle r) 0 1 0\<rparr>)
     else if ch = Some (lit ''q'') then
       (let r = r\<lparr>handRightAngle := handRightAngle r - 15\<rparr>
        in r\<lparr>handRightMatrix :=
             rotate_m (setTranslate (handRightMatrix r) 0 (-4) 0) (handRightAngle r) 0 1 0\<rparr>)
     else if ch = Some (lit ''l'') then
       (let r = r\<lparr>headAngle := headAngle r + 15\<rparr>
        in r\<lparr>headMatrix :=
             rotate_m (setTranslate (headMatrix r) 0 7 0) (headAngle r) 0 1 0\<rparr>)
     else if ch = Some (lit ''L'') then
       (let r = r\<lparr>headAngle := headAngle r - 15\<rparr>
        in r\<lparr>headMatrix :=
             rotate_m (setTranslate (headMatrix r) 0 7 0) (headAngle r) 0 1 0\<rparr>)
     else if ch = Some (lit ''d'') then
       (let r = r\<lparr>shoulderLeftAngle := shoulderLeftAngle r + 15\<rparr>;
            currentShoulderRot =
              translate
                (rotate_m (setTranslate (Matrix4_new None) 0 2 0) (- shoulderLeftAngle r) 1 0 0)
                0 (-2) 0
        in r\<lparr>shoulderLeftMatrix :=
             multiply (setTranslate (shoulderLeftMatrix r) 6.5 2 0) currentShoulderRot\<rparr>)
     else if ch = Some (lit ''D'') then
       (let r = r\<lparr>shoulderLeftAngle := shoulderLeftAngle r - 15\<rparr>;
            currentShoulderRot =
              translate
                (rotate_m (setTranslate (Matrix4_new None) 0 2 0) (- shoulderLeftAngle r) 1 0 0)
                0 (-2) 0
        in r\<lparr>shoulderLeftMatrix :=
             multiply (setTranslate (shoulderLeftMatrix r) 6.5 2 0) currentShoulderRot\<rparr>)
     else if ch = Some (lit ''f'') then
       (let r = r\<lparr>legRightAngle := legRightAngle r + 15\<rparr>;
            currentLeg =
              translate
                (rotate_m (setTranslate (Matrix4_new None) 0 2 0) (- legRightAngle r) 1 0 0)
                0 (-2) 0
        in r\<lparr>legRightMatrix :=
             multiply (setTranslate (legRightMatrix r) 3 (-7) 0) currentLeg\<rparr>)
     else if ch = Some (lit ''F'') then
       (let r = r\<lparr>legRightAngle := legRightAngle r - 15\<rparr>;
            currentLeg =
              translate
                (rotate_m (setTranslate (Matrix4_new None) 0 2 0) (- legRightAngle r) 1 0 0)
                0 (-2) 0
        in r\<lparr>legRightMatrix :=
             multiply (setTranslate (legRightMatrix r) 3 (-7) 0) currentLeg\<rparr>)
     else if ch = Some (lit ''g'') then
       (let r = r\<lparr>legLeftAngle := legLeftAngle r + 15\<rparr>;
            currentLeg =
              translate
                (rotate_m (setTranslate (Matrix4_new None) 0 2 0) (- legLeftAngle r) 1 0 0)
                0 (-2) 0
        in r\<lparr>legLeftMatrix :=
             multiply (setTranslate (legLeftMatrix r) (-2) (-7) 0) currentLeg\<rparr>)
     else if ch = Some (lit ''G'') then
       (let r = r\<lparr>legLeftAngle := legLeftAngle r - 15\<rparr>;
            currentLeg =
              translate
                (rotate_m (setTranslate (Matrix4_new None) 0 2 0) (- legLeftAngle r) 1 0 0)
                0 (-2) 0
        in r\<lparr>legLeftMatrix :=
             multiply (setTranslate (legLeftMatrix r) (-2) (-7) 0) currentLeg\<rparr>)
     else if ch = Some (lit ''j'') then
       (let r = r\<lparr>ankleLeftAngle := ankleLeftAngle r + 15\<rparr>;
            currentAnkle =
              translate
                (rotate_m (setTranslate (Matrix4_new None) 0 2 0) (- ankleLeftAngle r) 1 0 0)
                0 (-2) 0
        in r\<lparr>ankleLeftMatrix :=
             multiply (setTranslate (ankleLeftMatrix r) 0 (-4) 0) currentAnkle\<rparr>)
     else if ch = Some (lit ''J'') then
       (let r = r\<lparr>ankleLeftAngle := ankleLeftAngle r - 15\<rparr>;
            currentAnkle =
              translate
                (rotate_m (setTranslate (Matrix4_new None) 0 2 0) (- ankleLeftAngle r) 1 0 0)
                0 (-2) 0
        in r\<lparr>ankleLeftMatrix :=
             multiply (setTranslate (ankleLeftMatrix r) 0 (-4) 0) currentAnkle\<rparr>)
     else if ch = Some (lit ''k'') then
       (let r = r\<lparr>ankleRightAngle := ankleRightAngle r + 15\<rparr>;
            currentAnkle =
              translate
                (rotate_m (setTranslate (Matrix4_new None) 0 2 0) (- ankleRightAngle r) 1 0 0)
                0 (-2) 0
        in r\<lparr>ankleRightMatrix :=
             multiply (setTranslate (ankleRightMatrix r) 0 (-4) 0) currentAnkle\<rparr>)
     else if ch = Some (lit ''K'') then
       (let r = r\<lparr>ankleRightAngle := ankleRightAngle r - 15\<rparr>;
            currentAnkle =
              translate
                (rotate_m (setTranslate (Matrix4_new None) 0 2 0) (- ankleRightAngle r) 1 0 0)
                0 (-2) 0
        in r\<lparr>ankleRightMatrix :=
             multiply (setTranslate (ankleRightMatrix r) 0 (-4) 0) currentAnkle\<rparr>)
     else r)"

text \<open>A key press that delivers the character \<open>c\<close>.\<close>

definition key :: "char \<Rightarrow> KeyboardEvent" where
  "key c = \<lparr>which = Some (of_char c), keyCode = of_char c, charCode = of_char c\<rparr>"

text \<open>The characters that some case of the \<open>switch\<close> names.\<close>

definition recognized :: "jsstring list" where
  "recognized = map lit
     [''t'', ''T'', ''s'', ''S'', ''a'', ''A'', ''e'', ''E'', ''h'', ''H'', ''Q'', ''q'',
      ''l'', ''L'', ''d'', ''D'', ''f'', ''F'', ''g'', ''G'', ''j'', ''J'', ''k'', ''K'']"

text \<open>
  The robot after the characters \<open>cs\<close> have been typed, one key press after the other,
  starting from the state of the load.
\<close>

definition pressed :: "string \<Rightarrow> Robot" where
  "pressed cs = foldl (\<lambda>r c. handleKeyPress (key c) r) initial cs"

section \<open>Hierarchy.js: drawing\<close>

text \<open>
  What one call of \<open>draw()\<close> does to the stack, the console and the canvas: \<open>s\<close> is the matrix stack
  of the call, \<open>calls\<close> the \<open>push\<close> and \<open>pop\<close> calls made on it so far, in order,
  \<open>drawn\<close> the model matrix uploaded for each \<open>gl.drawArrays\<close>, \<open>console\<close> the messages
  logged, \<open>view\<close> the elements of the view matrix and \<open>rotator\<close> the trackball.
\<close>

record Frame =
  s :: "Matrix4 Stack"
  calls :: "Matrix4 call list"
  drawn :: "Matrix4 list"
  console :: "message list"
  view :: "real list"
  rotator :: SimpleRotator

text \<open>
  Of the WebGL context, \<open>renderCube\<close> needs the locations of its two attributes: it
  returns early when one of them is negative.
\<close>

record GL =
  a_Position :: int
  a_Normal :: int

text \<open>\<open>s.push(m)\<close> and \<open>s.pop()\<close> (whose value \<open>draw\<close> drops) on the stack of the frame.\<close>

definition s_push :: "Matrix4 \<Rightarrow> Frame \<Rightarrow> Frame" where
  "s_push m f = f\<lparr>s := push m (s f), calls := calls f @ [Push m]\<rparr>"

definition s_pop :: "Frame \<Rightarrow> Frame" where
  "s_pop f =
     (case pop (s f) of
        (temp, stk, msgs) \<Rightarrow> f\<lparr>s := stk, calls := calls f @ [Pop], console := console f @ msgs\<rparr>)"

text \<open>The statement \<open>s.push(new Matrix4(s.top()).multiply(placement))\<close>.\<close>

definition push_child :: "Matrix4 \<Rightarrow> Frame \<Rightarrow> Frame" where
  "push_child placement f =
     (case top_stk (s f) of
        (m, msgs) \<Rightarrow>
          s_push (multiply (Matrix4_new m) placement) (f\<lparr>console := console f @ msgs\<rparr>))"

text \<open>
  \<open>renderCube(matrixStack, matrixLocal)\<close>, with the stack of the frame as \<open>matrixStack\<close>.
  The normal matrix and the other uniforms that it uploads are not part of the model.
\<close>

definition renderCube :: "GL \<Rightarrow> Matrix4 \<Rightarrow> Frame \<Rightarrow> Frame" where
  "renderCube gl matrixLocal f =
     (if a_Position gl < 0
        then f\<lparr>console := console f @ [Text ''Failed to get the storage location of a_Position'']\<rparr>
      else if a_Normal gl < 0
        then f\<lparr>console := console f @ [Text ''Failed to get the storage location of a_Normal'']\<rparr>
      else
        (case top_stk (s f) of
           (m, msgs) \<Rightarrow>
             (let current = multiply (Matrix4_new m) matrixLocal
              in f\<lparr>console := console f @ msgs, drawn := drawn f @ [current]\<rparr>)))"

definition draw :: "GL \<Rightarrow> SimpleRotator \<Rightarrow> Robot \<Rightarrow> Frame" where
  "draw gl rot r =
     (let f = \<lparr>s = Stack_new, calls = [], drawn = [], console = [],
                view = getViewMatrix rot, rotator = setViewDistance rot 45\<rparr>;
          f = s_push (torsoMatrix r) f;
          f = renderCube gl torsoMatrixLocal f;
          f = push_child (shoulderLeftMatrix r) f;
          f = renderCube gl shoulderLeftMatrixLocal f;
          f = push_child (armLeftMatrix r) f;
          f = renderCube gl armLeftMatrixLocal f;
          f = push_child (handLeftMatrix r) f;
          f = renderCube gl handLeftMatrixLocal f;
          f = s_pop f;
          f = s_pop f;
          f = s_pop f;
          f = push_child (shoulderRightMatrix r) f;
          f = renderCube gl shoulderRightMatrixLocal f;
          f = push_child (armRightMatrix r) f;
          f = renderCube gl armRightMatrixLocal f;
          f = push_child (handRightMatrix r) f;
          f = renderCube gl handRightMatrixLocal f;
          f = s_pop f;
          f = s_pop f;
          f = s_pop f;
          f = push_child (headMatrix r) f;
          f = renderCube gl headMatrixLocal f;
          f = s_pop f;
          f = push_child (legLeftMatrix r) f;
          f = renderCube gl legLeftMatrixLocal f;
          f = push_child (ankleRightMatrix r) f;
          f = renderCube gl ankleLeftMatrixLocal f;
          f = push_child (footLeftMatrix r) f;
          f = renderCube gl footLeftMatrixLocal f;
          f = s_pop f;
          f = s_pop f;
          f = s_pop f;
          f = push_child (legRightMatrix r) f;
          f = renderCube gl legRightMatrixLocal f;
          f = push_child (ankleLeftMatrix r) f;
          f = renderCube gl ankleRightMatrixLocal f;
          f = push_child (footRightMatrix r) f;
          f = renderCube gl footRightMatrixLocal f;
          f = s_pop f;
          f = s_pop f;
          f = s_pop f;
          f = s_pop f
      in if \<not> isEmpty (s f)
         then f\<lparr>console := console f @ [Text ''Warning: pops do not match pushes'']\<rparr>
         else f)"

section \<open>Properties of the matrix stack\<close>

lemma t_push: "t (push m stk) = t stk + 1"
  by (simp add: push_def)

lemma t_pop: "t (fst (snd (pop stk))) = (if t stk \<le> 0 then t stk else t stk - 1)"
  by (simp add: pop_def Let_def)

lemma t_run_no_underflow:
  "no_underflow cs (t stk) \<Longrightarrow>
   t (run cs stk) = t stk + int (length (pushes cs)) - int (pops cs)"
proof (induction cs arbitrary: stk)
  case Nil
  show ?case by simp
next
  case (Cons c cs)
  show ?case
  proof (cases c)
    case (Push m)
    with Cons.prems have "no_underflow cs (t (push m stk))"
      by (simp add: t_push)
    from Cons.IH [OF this] Push show ?thesis
      by (simp add: t_push)
  next
    case Pop
    with Cons.prems have pos: "0 < t stk" and "no_underflow cs (t stk - 1)"
      by simp_all
    then have "no_underflow cs (t (fst (snd (pop stk))))"
      by (simp add: t_pop)
    from Cons.IH [OF this] Pop pos show ?thesis
      by (simp add: t_pop)
  qed
qed

lemma t_run_nonneg: "0 \<le> t stk \<Longrightarrow> 0 \<le> t (run cs stk)"
proof (induction cs arbitrary: stk)
  case Nil
  then show ?case by simp
next
  case (Cons c cs)
  show ?case
  proof (cases c)
    case (Push m)
    from Cons.prems have "0 \<le> t (push m stk)"
      by (simp add: t_push)
    from Cons.IH [OF this] Push show ?thesis by simp
  next
    case Pop
    from Cons.prems have "0 \<le> t (fst (snd (pop stk)))"
      by (simp add: t_pop)
    from Cons.IH [OF this] Pop show ?thesis by simp
  qed
qed

text \<open>
  C2, as stated, fails: \<open>pop\<close> on an empty stack only logs a warning, so the sequence
  pop, push (one push and one pop) takes a new stack from depth 0 to depth 1.
\<close>

theorem C2_pop_push_counterexample:
  "length (pushes [Pop, Push (7::int)]) = pops [Pop, Push (7::int)]
   \<and> t (run [Pop, Push (7::int)] Stack_new) = 1
   \<and> t (Stack_new :: int Stack) = 0"
  by (simp add: Stack_new_def push_def pop_def)

text \<open>
  C2 (amended): for every sequence of push and pop calls with as many pushes as pops in
  which no pop is called on an empty stack, the depth after the sequence is the starting
  depth; and in every state reached from a new stack by push and pop calls, \<open>isEmpty()\<close>
  is true iff the depth is zero.
\<close>

theorem C2_depth_restored:
  "(\<forall>cs (stk :: 'a Stack).
      no_underflow cs (t stk) \<and> length (pushes cs) = pops cs \<longrightarrow> t (run cs stk) = t stk)
   \<and> (\<forall>cs :: 'a call list. isEmpty (run cs Stack_new) \<longleftrightarrow> t (run cs Stack_new) = 0)"
proof (intro conjI allI impI)
  fix cs :: "'a call list" and stk :: "'a Stack"
  assume "no_underflow cs (t stk) \<and> length (pushes cs) = pops cs"
  then show "t (run cs stk) = t stk"
    using t_run_no_underflow [of cs stk] by simp
next
  fix cs :: "'a call list"
  have "0 \<le> t (run cs (Stack_new :: 'a Stack))"
    by (rule t_run_nonneg) (simp add: Stack_new_def)
  then show "isEmpty (run cs Stack_new) \<longleftrightarrow> t (run cs (Stack_new :: 'a Stack)) = 0"
    by (auto simp: isEmpty_def)
qed

theorem C2_depth_restored_witness:
  "no_underflow [Push (1::int), Push 2, Pop, Pop] (t (Stack_new :: int Stack))
   \<and> length (pushes [Push (1::int), Push 2, Pop, Pop]) = pops [Push (1::int), Push 2, Pop, Pop]
   \<and> t (run [Push (1::int), Push 2, Pop, Pop] Stack_new) = t (Stack_new :: int Stack)
   \<and> isEmpty (run [Push (1::int), Push 2, Pop, Pop] Stack_new)
   \<and> \<not> isEmpty (run [Push (1::int)] Stack_new)"
proof -
  have h: "no_underflow [Push (1::int), Push 2, Pop, Pop] (t (Stack_new :: int Stack))
           \<and> length (pushes [Push (1::int), Push 2, Pop, Pop]) = pops [Push (1::int), Push 2, Pop, Pop]"
    by (simp add: Stack_new_def)
  have e: "t (run [Push (1::int)] Stack_new) = 1"
    by (simp add: Stack_new_def push_def)
  from C2_depth_restored [where 'a = int]
  have a: "no_underflow cs (t stk) \<and> length (pushes cs) = pops cs \<longrightarrow> t (run cs stk) = t stk"
    and b: "isEmpty (run ds Stack_new) \<longleftrightarrow> t (run ds Stack_new) = 0"
    for cs ds :: "int call list" and stk :: "int Stack"
    by blast+
  from h a [of "[Push 1, Push 2, Pop, Pop]" Stack_new]
  have r: "t (run [Push (1::int), Push 2, Pop, Pop] Stack_new) = t (Stack_new :: int Stack)"
    by blast
  have z: "t (Stack_new :: int Stack) = 0"
    by (simp add: Stack_new_def)
  from b [of "[Push 1, Push 2, Pop, Pop]"] r z
  have i: "isEmpty (run [Push (1::int), Push 2, Pop, Pop] Stack_new)"
    by simp
  from b [of "[Push 1]"] e have n: "\<not> isEmpty (run [Push (1::int)] Stack_new)"
    by simp
  from h r i n show ?thesis
    by blast
qed

text \<open>
  C4: \<open>top()\<close> and \<open>pop()\<close> on a stack of depth zero (or less) log the underflow warning,
  return \<open>undefined\<close> and leave the stack as it was.
\<close>

theorem C4_underflow:
  "t stk \<le> 0 \<Longrightarrow>
     top_stk stk = (None, [TextNum ''top = '' (t stk), Text ''Warning: stack underflow''])
   \<and> pop stk = (None, stk, [Text ''Warning: stack underflow''])"
  by (simp add: top_stk_def pop_def)

theorem C4_underflow_witness:
  "t (Stack_new :: int Stack) \<le> 0
   \<and> top_stk (Stack_new :: int Stack) = (None, [TextNum ''top = '' 0, Text ''Warning: stack underflow''])
   \<and> pop (Stack_new :: int Stack) = (None, Stack_new, [Text ''Warning: stack underflow''])"
proof -
  have h: "t (Stack_new :: int Stack) \<le> 0"
    by (simp add: Stack_new_def)
  have z: "t (Stack_new :: int Stack) = 0"
    by (simp add: Stack_new_def)
  from C4_underflow [OF h] h z show ?thesis
    by simp
qed

section \<open>Properties of the two circles\<close>

lemma sqrt_22500: "sqrt 22500 = 150"
  by (rule real_sqrt_unique) simp_all

lemma sqrt_1600: "sqrt 1600 = 40"
  by (rule real_sqrt_unique) simp_all

lemma sqrt_10000: "sqrt 10000 = 100"
  by (rule real_sqrt_unique) simp_all

lemma sqrt_100: "sqrt 100 = 10"
  by (rule real_sqrt_unique) simp_all

text \<open>
  C7: the circles of radius 50 about (100,100) and (250,100) do not intersect (their
  centres are 150 apart), and those about (100,100) and (140,100) do.
\<close>

theorem C7_circles_of_the_demo:
  "dist_v [100, 100] [250, 100] = 150
   \<and> circleCircleIntersect [100, 100] 50 [250, 100] 50 = False
   \<and> circleCircleIntersect [100, 100] 50 [140, 100] 50 = True"
  by (simp add: circleCircleIntersect_def dist_v_def sqrt_22500 sqrt_1600)

lemma dist_v_commute: "dist_v a b = dist_v b a"
proof -
  have "(b ! 0 - a ! 0) * (b ! 0 - a ! 0) = (a ! 0 - b ! 0) * (a ! 0 - b ! 0)"
    and "(b ! 1 - a ! 1) * (b ! 1 - a ! 1) = (a ! 1 - b ! 1) * (a ! 1 - b ! 1)"
    by (simp_all add: algebra_simps)
  then show ?thesis
    by (simp add: dist_v_def Let_def)
qed

text \<open>
  C10: \<open>circleCircleIntersect\<close> is true exactly when the distance of the centres is at
  most the sum of the radii, it does not change when the two circles are swapped, and
  two tangent circles (here of radius 50 about (0,0) and (100,0)) intersect.
\<close>

theorem C10_circle_circle:
  "(circleCircleIntersect c1 r1 c2 r2 \<longleftrightarrow> dist_v c1 c2 \<le> r1 + r2)
   \<and> (circleCircleIntersect c1 r1 c2 r2 \<longleftrightarrow> circleCircleIntersect c2 r2 c1 r1)
   \<and> dist_v [0, 0] [100, 0] = 50 + 50
   \<and> circleCircleIntersect [0, 0] 50 [100, 0] 50"
  by (simp add: circleCircleIntersect_def dist_v_commute [of c1 c2] add.commute [of r1 r2] not_less)
    (simp add: dist_v_def sqrt_10000)

section \<open>Properties of the key handler\<close>

lemma setRotate_x:
  "setRotate m a 1 0 0 =
     [1, 0, 0, 0,
      0, cos (pi * a / 180), sin (pi * a / 180), 0,
      0, - sin (pi * a / 180), cos (pi * a / 180), 0,
      0, 0, 0, 1]"
  by (simp add: setRotate_def Let_def)

lemma setRotate_y:
  "setRotate m a 0 1 0 =
     [cos (pi * a / 180), 0, - sin (pi * a / 180), 0,
      0, 1, 0, 0,
      sin (pi * a / 180), 0, cos (pi * a / 180), 0,
      0, 0, 0, 1]"
  by (simp add: setRotate_def Let_def)

lemmas key_simps = pressed_def getChar_def key_def fromCharCode_def lit_def

lemmas matrix_simps =
  rotate_m_def translate_def setRotate_x setRotate_y setTranslate_def multiply_def Matrix4_new_def

text \<open>
  C6: in the state of the load the torso angle is 0 and the torso matrix is the
  translation by (0,0,0); one press of \<open>t\<close> makes the angle 15 and the matrix the product
  of that translation and the rotation by 15 degrees about the y axis, whose entries
  are those of the rotation.
\<close>

theorem C6_torso_key:
  "torsoAngle initial = 0
   \<and> torsoMatrix initial = [1, 0, 0, 0,  0, 1, 0, 0,  0, 0, 1, 0,  0, 0, 0, 1]
   \<and> torsoAngle (pressed ''t'') = 15
   \<and> torsoMatrix (pressed ''t'') =
       multiply (setTranslate (Matrix4_new None) 0 0 0) (setRotate (Matrix4_new None) 15 0 1 0)
   \<and> torsoMatrix (pressed ''t'') =
       [cos (pi / 12), 0, - sin (pi / 12), 0,
        0, 1, 0, 0,
        sin (pi / 12), 0, cos (pi / 12), 0,
        0, 0, 0, 1]"
  by (simp add: handleKeyPress_def key_simps initial_def Let_def matrix_simps)

text \<open>
  C9: a key press whose character is none of those that the \<open>switch\<close> names (a special
  key, for which \<open>getChar\<close> gives \<open>null\<close>, is one) leaves all angles and all matrices as
  they were.
\<close>

theorem C9_unrecognized_key:
  "getChar event \<notin> set (map Some recognized) \<Longrightarrow> handleKeyPress event r = r"
  by (simp add: handleKeyPress_def recognized_def Let_def)

theorem C9_unrecognized_key_witness:
  "getChar (key CHR ''x'') \<notin> set (map Some recognized)
   \<and> handleKeyPress (key CHR ''x'') initial = initial"
proof -
  have h: "getChar (key CHR ''x'') \<notin> set (map Some recognized)"
    by (simp add: recognized_def key_simps)
  from h C9_unrecognized_key [OF h, of initial] show ?thesis
    by simp
qed

text \<open>
  C1 at the state of the load, for the right leg: the declaration places the leg at
  (2,-7,0), the handlers of \<open>f\<close> and \<open>F\<close> at (3,-7,0). After \<open>f\<close> and then \<open>F\<close> the angle
  is 0 again, and the placement matrix is the translation by (3,-7,0), not the one by
  (2,-7,0) that it was.
\<close>

theorem C1_right_leg_not_restored:
  "legRightMatrix initial = [1, 0, 0, 0,  0, 1, 0, 0,  0, 0, 1, 0,  2, - 7, 0, 1]
   \<and> legRightMatrix (pressed ''fF'') = [1, 0, 0, 0,  0, 1, 0, 0,  0, 0, 1, 0,  3, - 7, 0, 1]
   \<and> legRightAngle (pressed ''fF'') = legRightAngle initial
   \<and> legRightMatrix (pressed ''fF'') \<noteq> legRightMatrix initial"
  by (simp add: handleKeyPress_def key_simps initial_def Let_def matrix_simps)

text \<open>
  For the other eleven parts with keys, the two key presses give back the state of the
  load; and for each of the twelve parts with keys, the right leg too, they give back
  every state that a press of one of the keys of the part has left.
\<close>

lemma other_parts_restored:
  "pressed ''tT'' = initial"
  "pressed ''sS'' = initial"
  "pressed ''aA'' = initial"
  "pressed ''eE'' = initial"
  "pressed ''hH'' = initial"
  "pressed ''Qq'' = initial"
  "pressed ''lL'' = initial"
  "pressed ''dD'' = initial"
  "pressed ''gG'' = initial"
  "pressed ''jJ'' = initial"
  "pressed ''kK'' = initial"
  by (simp_all add: handleKeyPress_def key_simps initial_def Let_def matrix_simps)

lemma restored_after_press:
  "handleKeyPress (key CHR ''T'') (handleKeyPress (key CHR ''t'') (handleKeyPress (key CHR ''t'') r)) =
     handleKeyPress (key CHR ''t'') r"
  "handleKeyPress (key CHR ''T'') (handleKeyPress (key CHR ''t'') (handleKeyPress (key CHR ''T'') r)) =
     handleKeyPress (key CHR ''T'') r"
  "handleKeyPress (key CHR ''S'') (handleKeyPress (key CHR ''s'') (handleKeyPress (key CHR ''s'') r)) =
     handleKeyPress (key CHR ''s'') r"
  "handleKeyPress (key CHR ''S'') (handleKeyPress (key CHR ''s'') (handleKeyPress (key CHR ''S'') r)) =
     handleKeyPress (key CHR ''S'') r"
  "handleKeyPress (key CHR ''A'') (handleKeyPress (key CHR ''a'') (handleKeyPress (key CHR ''a'') r)) =
     handleKeyPress (key CHR ''a'') r"
  "handleKeyPress (key CHR ''A'') (handleKeyPress (key CHR ''a'') (handleKeyPress (key CHR ''A'') r)) =
     handleKeyPress (key CHR ''A'') r"
  "handleKeyPress (key CHR ''E'') (handleKeyPress (key CHR ''e'') (handleKeyPress (key CHR ''e'') r)) =
     handleKeyPress (key CHR ''e'') r"
  "handleKeyPress (key CHR ''E'') (handleKeyPress (key CHR ''e'') (handleKeyPress (key CHR ''E'') r)) =
     handleKeyPress (key CHR ''E'') r"
  "handleKeyPress (key CHR ''H'') (handleKeyPress (key CHR ''h'') (handleKeyPress (key CHR ''h'') r)) =
     handleKeyPress (key CHR ''h'') r"
  "handleKeyPress (key CHR ''H'') (handleKeyPress (key CHR ''h'') (handleKeyPress (key CHR ''H'') r)) =
     handleKeyPress (key CHR ''H'') r"
  "handleKeyPress (key CHR ''q'') (handleKeyPress (key CHR ''Q'') (handleKeyPress (key CHR ''Q'') r)) =
     handleKeyPress (key CHR ''Q'') r"
  "handleKeyPress (key CHR ''q'') (handleKeyPress (key CHR ''Q'') (handleKeyPress (key CHR ''q'') r)) =
     handleKeyPress (key CHR ''q'') r"
  "handleKeyPress (key CHR ''L'') (handleKeyPress (key CHR ''l'') (handleKeyPress (key CHR ''l'') r)) =
     handleKeyPress (key CHR ''l'') r"
  "handleKeyPress (key CHR ''L'') (handleKeyPress (key CHR ''l'') (handleKeyPress (key CHR ''L'') r)) =
     handleKeyPress (key CHR ''L'') r"
  "handleKeyPress (key CHR ''D'') (handleKeyPress (key CHR ''d'') (handleKeyPress (key CHR ''d'') r)) =
     handleKeyPress (key CHR ''d'') r"
  "handleKeyPress (key CHR ''D'') (handleKeyPress (key CHR ''d'') (handleKeyPress (key CHR ''D'') r)) =
     handleKeyPress (key CHR ''D'') r"
  "handleKeyPress (key CHR ''F'') (handleKeyPress (key CHR ''f'') (handleKeyPress (key CHR ''f'') r)) =
     handleKeyPress (key CHR ''f'') r"
  "handleKeyPress (key CHR ''F'') (handleKeyPress (key CHR ''f'') (handleKeyPress (key CHR ''F'') r)) =
     handleKeyPress (key CHR ''F'') r"
  "handleKeyPress (key CHR ''G'') (handleKeyPress (key CHR ''g'') (handleKeyPress (key CHR ''g'') r)) =
     handleKeyPress (key CHR ''g'') r"
  "handleKeyPress (key CHR ''G'') (handleKeyPress (key CHR ''g'') (handleKeyPress (key CHR ''G'') r)) =
     handleKeyPress (key CHR ''G'') r"
  "handleKeyPress (key CHR ''J'') (handleKeyPress (key CHR ''j'') (handleKeyPress (key CHR ''j'') r)) =
     handleKeyPress (key CHR ''j'') r"
  "handleKeyPress (key CHR ''J'') (handleKeyPress (key CHR ''j'') (handleKeyPress (key CHR ''J'') r)) =
     handleKeyPress (key CHR ''J'') r"
  "handleKeyPress (key CHR ''K'') (handleKeyPress (key CHR ''k'') (handleKeyPress (key CHR ''k'') r)) =
     handleKeyPress (key CHR ''k'') r"
  "handleKeyPress (key CHR ''K'') (handleKeyPress (key CHR ''k'') (handleKeyPress (key CHR ''K'') r)) =
     handleKeyPress (key CHR ''K'') r"
  by (simp_all add: handleKeyPress_def getChar_def key_def fromCharCode_def lit_def Let_def
      setTranslate_def algebra_simps)

section \<open>Properties of the drawing\<close>

lemmas frame_simps =
  s_push_def s_pop_def push_child_def renderCube_def top_stk_def pop_def push_def
  Stack_new_def Matrix4_new_def isEmpty_def

text \<open>
  The calls that \<open>draw\<close> makes on its stack, for every state of the robot: each push but
  the first is the top of the stack times a placement matrix.
\<close>

lemma draw_facts:
  "calls (draw gl rot r) =
     [Push (torsoMatrix r),
      Push (multiply (torsoMatrix r) (shoulderLeftMatrix r)),
      Push (multiply (multiply (torsoMatrix r) (shoulderLeftMatrix r)) (armLeftMatrix r)),
      Push (multiply (multiply (multiply (torsoMatrix r) (shoulderLeftMatrix r)) (armLeftMatrix r))
              (handLeftMatrix r)),
      Pop, Pop, Pop,
      Push (multiply (torsoMatrix r) (shoulderRightMatrix r)),
      Push (multiply (multiply (torsoMatrix r) (shoulderRightMatrix r)) (armRightMatrix r)),
      Push (multiply (multiply (multiply (torsoMatrix r) (shoulderRightMatrix r)) (armRightMatrix r))
              (handRightMatrix r)),
      Pop, Pop, Pop,
      Push (multiply (torsoMatrix r) (headMatrix r)),
      Pop,
      Push (multiply (torsoMatrix r) (legLeftMatrix r)),
      Push (multiply (multiply (torsoMatrix r) (legLeftMatrix r)) (ankleRightMatrix r)),
      Push (multiply (multiply (multiply (torsoMatrix r) (legLeftMatrix r)) (ankleRightMatrix r))
              (footLeftMatrix r)),
      Pop, Pop, Pop,
      Push (multiply (torsoMatrix r) (legRightMatrix r)),
      Push (multiply (multiply (torsoMatrix r) (legRightMatrix r)) (ankleLeftMatrix r)),
      Push (multiply (multiply (multiply (torsoMatrix r) (legRightMatrix r)) (ankleLeftMatrix r))
              (footRightMatrix r)),
      Pop, Pop, Pop,
      Pop]
   \<and> t (s (draw gl rot r)) = 0
   \<and> set (console (draw gl rot r)) \<subseteq>
       {Text ''Failed to get the storage location of a_Position'',
        Text ''Failed to get the storage location of a_Normal''}"
proof (cases "a_Position gl < 0")
  case True
  then show ?thesis
    unfolding draw_def Let_def by (simp add: frame_simps)
next
  case False
  note pos = this
  show ?thesis
  proof (cases "a_Normal gl < 0")
    case True
    with pos show ?thesis
      unfolding draw_def Let_def by (simp add: frame_simps)
  next
    case False
    with pos show ?thesis
      unfolding draw_def Let_def by (simp add: frame_simps)
  qed
qed

text \<open>
  The model matrices of the fourteen cubes, when both attributes are found: each is the
  top of the stack times a local matrix.
\<close>

lemma draw_drawn:
  "0 \<le> a_Position gl \<Longrightarrow> 0 \<le> a_Normal gl \<Longrightarrow>
   drawn (draw gl rot r) =
     [multiply (torsoMatrix r) torsoMatrixLocal,
      multiply (multiply (torsoMatrix r) (shoulderLeftMatrix r)) shoulderLeftMatrixLocal,
      multiply (multiply (multiply (torsoMatrix r) (shoulderLeftMatrix r)) (armLeftMatrix r))
        armLeftMatrixLocal,
      multiply (multiply (multiply (multiply (torsoMatrix r) (shoulderLeftMatrix r)) (armLeftMatrix r))
                  (handLeftMatrix r))
        handLeftMatrixLocal,
      multiply (multiply (torsoMatrix r) (shoulderRightMatrix r)) shoulderRightMatrixLocal,
      multiply (multiply (multiply (torsoMatrix r) (shoulderRightMatrix r)) (armRightMatrix r))
        armRightMatrixLocal,
      multiply (multiply (multiply (multiply (torsoMatrix r) (shoulderRightMatrix r)) (armRightMatrix r))
                  (handRightMatrix r))
        handRightMatrixLocal,
      multiply (multiply (torsoMatrix r) (headMatrix r)) headMatrixLocal,
      multiply (multiply (torsoMatrix r) (legLeftMatrix r)) legLeftMatrixLocal,
      multiply (multiply (multiply (torsoMatrix r) (legLeftMatrix r)) (ankleRightMatrix r))
        ankleLeftMatrixLocal,
      multiply (multiply (multiply (multiply (torsoMatrix r) (legLeftMatrix r)) (ankleRightMatrix r))
                  (footLeftMatrix r))
        footLeftMatrixLocal,
      multiply (multiply (torsoMatrix r) (legRightMatrix r)) legRightMatrixLocal,
      multiply (multiply (multiply (torsoMatrix r) (legRightMatrix r)) (ankleLeftMatrix r))
        ankleRightMatrixLocal,
      multiply (multiply (multiply (multiply (torsoMatrix r) (legRightMatrix r)) (ankleLeftMatrix r))
                  (footRightMatrix r))
        footRightMatrixLocal]"
  unfolding draw_def Let_def by (simp add: frame_simps not_less [symmetric])

text \<open>The stack at the end of \<open>draw\<close> is the one that these calls build from a new stack.\<close>

lemma draw_run: "s (draw gl rot r) = run (calls (draw gl rot r)) Stack_new"
proof (cases "a_Position gl < 0")
  case True
  then show ?thesis
    unfolding draw_def Let_def by (simp add: frame_simps)
next
  case False
  note pos = this
  show ?thesis
  proof (cases "a_Normal gl < 0")
    case True
    with pos show ?thesis
      unfolding draw_def Let_def by (simp add: frame_simps)
  next
    case False
    with pos show ?thesis
      unfolding draw_def Let_def by (simp add: frame_simps)
  qed
qed

text \<open>
  C5: one call of \<open>draw\<close> makes fourteen pushes and fourteen pops on the stack that it
  creates; at its end the stack is empty, and neither the warning that the pops do not
  match the pushes nor an underflow warning has been logged.
\<close>

theorem C5_draw_balanced:
  "length (pushes (calls (draw gl rot r))) = pops (calls (draw gl rot r))
   \<and> pops (calls (draw gl rot r)) = 14
   \<and> isEmpty (s (draw gl rot r))
   \<and> Text ''Warning: pops do not match pushes'' \<notin> set (console (draw gl rot r))
   \<and> Text ''Warning: stack underflow'' \<notin> set (console (draw gl rot r))"
proof -
  from draw_facts [of gl rot r]
  have c: "length (pushes (calls (draw gl rot r))) = 14" "pops (calls (draw gl rot r)) = 14"
    and d: "t (s (draw gl rot r)) = 0"
    and m: "set (console (draw gl rot r)) \<subseteq>
       {Text ''Failed to get the storage location of a_Position'',
        Text ''Failed to get the storage location of a_Normal''}"
    by simp_all
  from c d m show ?thesis
    by (auto simp: isEmpty_def)
qed

lemma cos_pi_12_less_1: "cos (pi / 12) < 1"
proof -
  have "cos (pi / 12) < cos 0"
    by (rule cos_monotone_0_pi) simp_all
  then show ?thesis by simp
qed

lemma ankles_after_j:
  "torsoMatrix (pressed ''j'') = [1, 0, 0, 0,  0, 1, 0, 0,  0, 0, 1, 0,  0, 0, 0, 1]"
  "legLeftMatrix (pressed ''j'') = [1, 0, 0, 0,  0, 1, 0, 0,  0, 0, 1, 0,  - 2, - 7, 0, 1]"
  "legRightMatrix (pressed ''j'') = [1, 0, 0, 0,  0, 1, 0, 0,  0, 0, 1, 0,  2, - 7, 0, 1]"
  "ankleRightMatrix (pressed ''j'') = [1, 0, 0, 0,  0, 1, 0, 0,  0, 0, 1, 0,  0, - 4, 0, 1]"
  "ankleLeftMatrix (pressed ''j'') =
     [1, 0, 0, 0,
      0, cos (pi / 12), - sin (pi / 12), 0,
      0, sin (pi / 12), cos (pi / 12), 0,
      0, - 2 - cos (pi / 12) * 2, sin (pi / 12) * 2, 1]"
  by (simp_all add: handleKeyPress_def key_simps initial_def Let_def matrix_simps)

text \<open>
  C3 at the state after one press of \<open>j\<close> (left ankle angle 15, right ankle angle 0):
  the matrix that \<open>draw\<close> pushes for the left ankle, its tenth push, is the top of the
  stack (torso times left leg) times the placement matrix of the right ankle, and is not
  that top times the placement matrix of the left ankle; the matrix pushed for the right
  ankle, the thirteenth push, is the top (torso times right leg) times the placement
  matrix of the left ankle, and is not that top times the one of the right ankle.
\<close>

theorem C3_ankle_matrices_swapped:
  "pushes (calls (draw gl rot (pressed ''j''))) ! 9 =
     multiply (multiply (torsoMatrix (pressed ''j'')) (legLeftMatrix (pressed ''j'')))
       (ankleRightMatrix (pressed ''j''))
   \<and> pushes (calls (draw gl rot (pressed ''j''))) ! 9 \<noteq>
     multiply (multiply (torsoMatrix (pressed ''j'')) (legLeftMatrix (pressed ''j'')))
       (ankleLeftMatrix (pressed ''j''))
   \<and> pushes (calls (draw gl rot (pressed ''j''))) ! 12 =
     multiply (multiply (torsoMatrix (pressed ''j'')) (legRightMatrix (pressed ''j'')))
       (ankleLeftMatrix (pressed ''j''))
   \<and> pushes (calls (draw gl rot (pressed ''j''))) ! 12 \<noteq>
     multiply (multiply (torsoMatrix (pressed ''j'')) (legRightMatrix (pressed ''j'')))
       (ankleRightMatrix (pressed ''j''))"
proof -
  from draw_facts [of gl rot "pressed ''j''"]
  have p9: "pushes (calls (draw gl rot (pressed ''j''))) ! 9 =
     multiply (multiply (torsoMatrix (pressed ''j'')) (legLeftMatrix (pressed ''j'')))
       (ankleRightMatrix (pressed ''j''))"
   and p12: "pushes (calls (draw gl rot (pressed ''j''))) ! 12 =
     multiply (multiply (torsoMatrix (pressed ''j'')) (legRightMatrix (pressed ''j'')))
       (ankleLeftMatrix (pressed ''j''))"
    by simp_all
  have ne: "multiply (multiply (torsoMatrix (pressed ''j'')) legm) (ankleRightMatrix (pressed ''j'')) \<noteq>
            multiply (multiply (torsoMatrix (pressed ''j'')) legm) (ankleLeftMatrix (pressed ''j''))"
    if "legm = [1, 0, 0, 0,  0, 1, 0, 0,  0, 0, 1, 0,  x, y, z, 1]" for legm x y z
    using cos_pi_12_less_1 by (simp add: that ankles_after_j multiply_def)
  from p9 p12 ne [OF ankles_after_j(2)] not_sym [OF ne [OF ankles_after_j(3)]] show ?thesis
    by (simp only: simp_thms)
qed

section \<open>Properties of the trackball\<close>

lemmas vec_simps = dot_def length_v_def normalize_v_def copy_def add_def subtract_def scale_def cross_def

lemma setView_basis:
  "(unitx (setView r d u vd), unity (setView r d u vd), unitz (setView r d u vd)) =
     view_basis (case d of None \<Rightarrow> [0, 0, 10] | Some v \<Rightarrow> v) (case u of None \<Rightarrow> [0, 1, 0] | Some v \<Rightarrow> v)"
  by (cases vd) (simp_all add: setView_def view_basis_def unit_vector_def Let_def vec_simps mult.commute)

lemma setView_viewZ:
  "viewZ (setView r d u vd) =
     (case vd of
        None \<Rightarrow> length_v (case d of None \<Rightarrow> [0, 0, 10] | Some v \<Rightarrow> v)
      | Some x \<Rightarrow> if x \<noteq> 0 then x else length_v (case d of None \<Rightarrow> [0, 0, 10] | Some v \<Rightarrow> v))"
  by (cases vd) (simp_all add: setView_def Let_def)

lemma dragging_dispatch:
  "dragging (dispatch r (Mousedown x y)) = True"
  "dragging (dispatch r Mouseup) = False"
  by (simp_all add: doMouseDown_def doMouseUp_def)

lemma view_dispatch:
  "getViewMatrix (dispatch r (Mousedown x y)) = getViewMatrix r"
  "getViewMatrix (dispatch r Mouseup) = getViewMatrix r"
  "\<not> dragging r \<Longrightarrow> dispatch r (Mousemove x y) = r"
  by (simp_all add: doMouseDown_def doMouseUp_def getViewMatrix_def getViewMatrixArray_def)

lemma no_drag_view:
  "no_drag (dragging r) evs \<Longrightarrow> getViewMatrix (foldl dispatch r evs) = getViewMatrix r"
proof (induction evs arbitrary: r)
  case Nil
  show ?case by simp
next
  case (Cons ev evs)
  show ?case
  proof (cases ev)
    case (Mousedown x y)
    with Cons.prems have "no_drag (dragging (dispatch r ev)) evs"
      by (simp only: dragging_dispatch no_drag.simps)
    from Cons.IH [OF this] Mousedown show ?thesis
      by (simp only: foldl_Cons view_dispatch)
  next
    case (Mousemove x y)
    with Cons.prems have nd: "\<not> dragging r" and "no_drag (dragging r) evs"
      by auto
    with Mousemove have "no_drag (dragging (dispatch r ev)) evs"
      by simp
    from Cons.IH [OF this] Mousemove nd show ?thesis
      by simp
  next
    case Mouseup
    with Cons.prems have "no_drag (dragging (dispatch r ev)) evs"
      by (simp only: dragging_dispatch no_drag.simps)
    from Cons.IH [OF this] Mouseup show ?thesis
      by (simp only: foldl_Cons view_dispatch)
  qed
qed

lemma dot_cross_left: "dot (cross v w) v = 0"
  by (simp add: vec_simps Let_def algebra_simps)

lemma dot_cross_right: "dot (cross v w) w = 0"
  by (simp add: vec_simps Let_def algebra_simps)

lemma dot_cross_cross: "dot (cross v w) (cross v w) = dot v v * dot w w - dot v w * dot v w"
  by (simp add: vec_simps Let_def algebra_simps)

lemma dot_commute: "dot v w = dot w v"
  by (simp add: dot_def mult.commute)

lemma unit_square:
  fixes a b c :: real
  assumes "a * a + b * b + c * c \<noteq> 0"
  shows "a / sqrt (a * a + b * b + c * c) * (a / sqrt (a * a + b * b + c * c))
       + b / sqrt (a * a + b * b + c * c) * (b / sqrt (a * a + b * b + c * c))
       + c / sqrt (a * a + b * b + c * c) * (c / sqrt (a * a + b * b + c * c)) = 1"
proof -
  define q where "q = a * a + b * b + c * c"
  have nn: "0 \<le> q"
    by (simp add: q_def)
  have sq: "x / sqrt q * (x / sqrt q) = x * x / q" for x
    using nn by simp
  have "a * a / q + b * b / q + c * c / q = (a * a + b * b + c * c) / q"
    by (simp add: add_divide_distrib)
  also have "\<dots> = 1"
    using assms by (simp add: q_def)
  finally show ?thesis
    by (simp only: sq q_def [symmetric])
qed

lemma dot_unit_vector: "dot v v \<noteq> 0 \<Longrightarrow> dot (unit_vector v) (unit_vector v) = 1"
  using unit_square [of "v ! 0" "v ! 1" "v ! 2"] by (simp add: unit_vector_def dot_def)

lemma dot_unit_vector_left: "dot (unit_vector v) w = dot v w / sqrt (dot v v)"
  by (simp add: unit_vector_def dot_def add_divide_distrib)

lemma sum_squares_zero:
  fixes a b c :: real
  assumes "a * a + b * b + c * c = 0"
  shows "a = 0 \<and> b = 0 \<and> c = 0"
proof -
  have "0 \<le> a * a" "0 \<le> b * b" "0 \<le> c * c"
    by simp_all
  with assms have "a * a = 0" "b * b = 0" "c * c = 0"
    by linarith+
  then show ?thesis by simp
qed


lemma view_basis_alt:
  "view_basis d u =
     (cross (unit_vector (subtract u (scale (unit_vector d) (dot (unit_vector d) u)))) (unit_vector d),
      unit_vector (subtract u (scale (unit_vector d) (dot (unit_vector d) u))),
      unit_vector d)"
  by (simp add: view_basis_def Let_def unit_vector_def vec_simps mult.commute)

lemma cross_zero_direction:
  assumes "dot d d = 0"
  shows "cross d u = [0, 0, 0]"
proof -
  from assms sum_squares_zero [of "d ! 0" "d ! 1" "d ! 2"]
  have "d ! 0 = 0" "d ! 1 = 0" "d ! 2 = 0"
    by (simp_all add: dot_def)
  then show ?thesis
    by (simp add: cross_def Let_def)
qed

lemma cross_parallel:
  assumes "dot (subtract u (scale (unit_vector d) (dot (unit_vector d) u)))
               (subtract u (scale (unit_vector d) (dot (unit_vector d) u))) = 0"
  shows "cross d u = [0, 0, 0]"
proof -
  define p where "p = dot (unit_vector d) u"
  define n where "n = sqrt (dot d d)"
  have z: "unit_vector d = [d ! 0 / n, d ! 1 / n, d ! 2 / n]"
    by (simp add: unit_vector_def n_def dot_def)
  have w: "subtract u (scale (unit_vector d) (dot (unit_vector d) u)) =
           [u ! 0 - d ! 0 / n * p, u ! 1 - d ! 1 / n * p, u ! 2 - d ! 2 / n * p]"
    by (simp add: p_def z subtract_def scale_def)
  from assms have "(u ! 0 - d ! 0 / n * p) * (u ! 0 - d ! 0 / n * p)
                 + (u ! 1 - d ! 1 / n * p) * (u ! 1 - d ! 1 / n * p)
                 + (u ! 2 - d ! 2 / n * p) * (u ! 2 - d ! 2 / n * p) = 0"
    unfolding w by (simp add: dot_def)
  from sum_squares_zero [OF this]
  have "u ! 0 = d ! 0 / n * p" "u ! 1 = d ! 1 / n * p" "u ! 2 = d ! 2 / n * p"
    by simp_all
  then show ?thesis
    by (simp add: cross_def Let_def)
qed

lemma orthonormal_view_basis:
  assumes "cross d u \<noteq> [0, 0, 0]"
  shows "orthonormal (view_basis d u)"
proof -
  define z where "z = unit_vector d"
  define w where "w = subtract u (scale z (dot z u))"
  define y where "y = unit_vector w"
  from assms cross_zero_direction [of d u] have "dot d d \<noteq> 0"
    by blast
  then have zz: "dot z z = 1"
    unfolding z_def by (rule dot_unit_vector)
  from assms cross_parallel [of u d] have "dot w w \<noteq> 0"
    unfolding w_def z_def by blast
  then have yy: "dot y y = 1"
    unfolding y_def by (rule dot_unit_vector)
  have "dot w z = dot u z - dot z u * dot z z"
    by (simp add: w_def subtract_def scale_def dot_def algebra_simps)
  with zz have wz: "dot w z = 0"
    by (simp add: dot_commute [of u z])
  have yz: "dot y z = 0"
    by (simp add: y_def dot_unit_vector_left wz)
  have xx: "dot (cross y z) (cross y z) = 1"
    by (simp add: dot_cross_cross yy zz yz)
  have xy: "dot (cross y z) y = 0"
    by (rule dot_cross_left)
  have zx: "dot z (cross y z) = 0"
    by (simp add: dot_commute [of z] dot_cross_right)
  from xx yy zz xy yz zx show ?thesis
    by (simp add: orthonormal_def view_basis_alt z_def [symmetric] w_def [symmetric] y_def [symmetric])
qed

lemma view_basis_default: "view_basis [0, 0, 10] [0, 1, 0] = ([1, 0, 0], [0, 1, 0], [0, 0, 1])"
  by (simp add: view_basis_def unit_vector_def Let_def sqrt_100)


lemma getViewMatrix_setView:
  "getViewMatrix (setView r d u vd) =
     view_matrix_of
       (view_basis (case d of None \<Rightarrow> [0, 0, 10] | Some v \<Rightarrow> v) (case u of None \<Rightarrow> [0, 1, 0] | Some v \<Rightarrow> v))
       (getViewDistance (setView r d u vd))"
  by (simp add: setView_basis [of r d u vd, symmetric] getViewMatrix_def getViewMatrixArray_def
      getViewDistance_def view_matrix_of_def)

text \<open>
  C8: after any sequence of mouse events in which the mouse never moves while a button
  is held (no drag), \<open>getViewMatrix\<close> of a rotator built from a view direction and an up
  vector that are not parallel (absent ones are [0,0,10] and [0,1,0]) is the
  column-major matrix of the basis derived from the two vectors, with the negated view
  distance (the one given, else the length of the view direction) in the translation
  column; that basis is orthonormal; for the default vectors the matrix is the identity
  with -10 in the translation column.
\<close>

theorem C8_view_matrix_without_drag:
  assumes "no_drag False evs"
    and "cross (case d of None \<Rightarrow> [0, 0, 10] | Some v \<Rightarrow> v) (case u of None \<Rightarrow> [0, 1, 0] | Some v \<Rightarrow> v)
         \<noteq> [0, 0, 0]"
  shows "getViewMatrix (foldl dispatch (SimpleRotator_new canvas d u vd) evs) =
           view_matrix_of
             (view_basis (case d of None \<Rightarrow> [0, 0, 10] | Some v \<Rightarrow> v)
                (case u of None \<Rightarrow> [0, 1, 0] | Some v \<Rightarrow> v))
             (case vd of
                None \<Rightarrow> length_v (case d of None \<Rightarrow> [0, 0, 10] | Some v \<Rightarrow> v)
              | Some x \<Rightarrow> if x \<noteq> 0 then x else length_v (case d of None \<Rightarrow> [0, 0, 10] | Some v \<Rightarrow> v))
         \<and> orthonormal
             (view_basis (case d of None \<Rightarrow> [0, 0, 10] | Some v \<Rightarrow> v)
                (case u of None \<Rightarrow> [0, 1, 0] | Some v \<Rightarrow> v))
         \<and> view_matrix_of (view_basis [0, 0, 10] [0, 1, 0]) (length_v [0, 0, 10]) =
             [1, 0, 0, 0,  0, 1, 0, 0,  0, 0, 1, 0,  0, 0, - 10, 1]"
proof -
  have "dragging (SimpleRotator_new canvas d u vd) = False"
    by (cases vd) (simp_all add: SimpleRotator_new_def setView_def Let_def)
  with assms(1) have "no_drag (dragging (SimpleRotator_new canvas d u vd)) evs"
    by simp
  then have "getViewMatrix (foldl dispatch (SimpleRotator_new canvas d u vd) evs) =
             getViewMatrix (SimpleRotator_new canvas d u vd)"
    by (rule no_drag_view)
  moreover have "getViewMatrix (SimpleRotator_new canvas d u vd) =
           view_matrix_of
             (view_basis (case d of None \<Rightarrow> [0, 0, 10] | Some v \<Rightarrow> v)
                (case u of None \<Rightarrow> [0, 1, 0] | Some v \<Rightarrow> v))
             (case vd of
                None \<Rightarrow> length_v (case d of None \<Rightarrow> [0, 0, 10] | Some v \<Rightarrow> v)
              | Some x \<Rightarrow> if x \<noteq> 0 then x else length_v (case d of None \<Rightarrow> [0, 0, 10] | Some v \<Rightarrow> v))"
    unfolding SimpleRotator_new_def
    by (simp only: getViewMatrix_setView getViewDistance_def setView_viewZ)
  moreover from assms(2) have "orthonormal
             (view_basis (case d of None \<Rightarrow> [0, 0, 10] | Some v \<Rightarrow> v)
                (case u of None \<Rightarrow> [0, 1, 0] | Some v \<Rightarrow> v))"
    by (rule orthonormal_view_basis)
  moreover have "view_matrix_of (view_basis [0, 0, 10] [0, 1, 0]) (length_v [0, 0, 10]) =
             [1, 0, 0, 0,  0, 1, 0, 0,  0, 0, 1, 0,  0, 0, - 10, 1]"
    by (simp add: view_basis_default view_matrix_of_def length_v_def sqrt_100)
  ultimately show ?thesis
    by (simp only: simp_thms)
qed

theorem C8_view_matrix_without_drag_witness:
  "no_drag False [Mousedown 300 200, Mouseup, Mousemove 310 190]
   \<and> cross [0, 0, 10] [0, 1, 0] \<noteq> [0, 0, 0]
   \<and> getViewMatrix
        (foldl dispatch (SimpleRotator_new \<lparr>width = 600, height = 400\<rparr> None None None)
           [Mousedown 300 200, Mouseup, Mousemove 310 190]) =
       [1, 0, 0, 0,  0, 1, 0, 0,  0, 0, 1, 0,  0, 0, - 10, 1]
   \<and> orthonormal ([1, 0, 0], [0, 1, 0], [0, 0, 1])"
proof -
  have h1: "no_drag False [Mousedown 300 200, Mouseup, Mousemove 310 190]"
    by simp
  have h2: "cross (case None of None \<Rightarrow> [0, 0, 10] | Some v \<Rightarrow> v)
              (case None of None \<Rightarrow> [0, 1, 0] | Some v \<Rightarrow> v) \<noteq> [0, 0, 0]"
    by (simp add: cross_def Let_def)
  from C8_view_matrix_without_drag [OF h1 h2, of "\<lparr>width = 600, height = 400\<rparr>" None] h1 h2
  show ?thesis
    by (simp add: view_basis_default)
qed

end
